theory Spec2Isabelle
  imports Main "HOL-Library.AList"
begin

section \<open>The servers view of vscode-adapters\<close>

text \<open>
  \<^verbatim>\<open>src/serverExplorer.ts\<close> holds two versions of the class
  \<^verbatim>\<open>ServersViewTreeDataProvider\<close>. The first keeps a map \<^verbatim>\<open>servers\<close> of server
  handles beside the map \<^verbatim>\<open>serverStatus\<close> of server states (the handle-tracking
  variant, suffix \<open>_ht\<close> below); the second keeps \<^verbatim>\<open>serverStatus\<close> only (the
  state-only variant, suffix \<open>_so\<close>). Both are embedded here: the fields of the class
  are a record, every method takes the record and returns the updated one, a thrown
  exception is a value, and the objects of the host (output channels, the change event)
  are explicit parts of the state.
\<close>

subsection \<open>Protocol data\<close>

text \<open>
  Modelled from the spec: the interfaces \<^verbatim>\<open>Protocol.ServerHandle\<close>,
  \<^verbatim>\<open>Protocol.ServerState\<close>, \<^verbatim>\<open>Protocol.DeployableState\<close>,
  \<^verbatim>\<open>Protocol.ServerProcessOutput\<close>, \<^verbatim>\<open>Protocol.Status\<close> and the server bean are
  declared in the package \<^verbatim>\<open>rsp-client\<close>, which is not part of the sources. The records
  have the fields the code reads (\<^verbatim>\<open>id\<close>, \<^verbatim>\<open>type.visibleName\<close>, \<^verbatim>\<open>server\<close>,
  \<^verbatim>\<open>state\<close>, \<^verbatim>\<open>deployableStates\<close>, \<^verbatim>\<open>reference\<close>, \<^verbatim>\<open>text\<close>,
  \<^verbatim>\<open>typeCategory\<close>, \<^verbatim>\<open>severity\<close>, \<^verbatim>\<open>message\<close>), typed as the data model of the
  specification describes them: a handle is a string identifier and a type with a
  readable name; a server state refers to its handle and has an integer run-state code
  and an ordered collection of deployable states; a deployable state has a reference
  (an object carrying a name) and an integer state code.
  The fields \<^verbatim>\<open>id\<close> and \<^verbatim>\<open>type\<close> are written \<open>id_field\<close> and \<open>type_field\<close>.
\<close>

record ServerType =
  visibleName :: string

record ServerHandle =
  id_field :: string
  type_field :: ServerType

record ServerProcessOutput =
  server :: ServerHandle
  text_field :: string

record DeployableReference =
  ref_name :: string

record DeployableState =
  reference :: DeployableReference
  state :: int

record ServerState =
  server :: ServerHandle
  state :: int
  deployableStates :: "DeployableState list"

record ServerBean =
  typeCategory :: "string option"

record Status =
  severity :: int
  message :: string

text \<open>
  Modelled from the spec: the constant \<^verbatim>\<open>ServerState.STARTING\<close> of \<^verbatim>\<open>rsp-client\<close>;
  the specification gives the run-state codes
  \<^verbatim>\<open>Unknown=0, Starting=1, Started=2, Stopping=3, Stopped=4\<close>.
\<close>

definition STARTING :: int where
  "STARTING = 1"

subsection \<open>JavaScript values\<close>

text \<open>
  A JavaScript \<^verbatim>\<open>Map\<close> iterates in insertion order: \<^verbatim>\<open>set\<close> on a key that is
  present replaces the value where the key stands, \<^verbatim>\<open>set\<close> on a new key appends,
  \<^verbatim>\<open>delete\<close> removes the key, \<^verbatim>\<open>get\<close> of a missing key is \<^verbatim>\<open>undefined\<close>
  (\<open>None\<close>). It is an association list.
\<close>

type_synonym ('k, 'v) js_map = "('k \<times> 'v) list"

definition Map_get :: "('k, 'v) js_map \<Rightarrow> 'k \<Rightarrow> 'v option" where
  "Map_get m k = map_of m k"

definition Map_set :: "('k, 'v) js_map \<Rightarrow> 'k \<Rightarrow> 'v \<Rightarrow> ('k, 'v) js_map" where
  "Map_set m k v = AList.update k v m"

definition Map_delete :: "('k, 'v) js_map \<Rightarrow> 'k \<Rightarrow> ('k, 'v) js_map" where
  "Map_delete m k = AList.delete k m"

definition Map_values :: "('k, 'v) js_map \<Rightarrow> 'v list" where
  "Map_values m = map snd m"

text \<open>
  A value interpolated into a template literal: \<^verbatim>\<open>undefined\<close> prints as the
  word itself.
\<close>

definition template :: "string option \<Rightarrow> string" where
  "template v = (case v of None \<Rightarrow> ''undefined'' | Some s \<Rightarrow> s)"

text \<open>
  A number appended to a string is converted by \<^verbatim>\<open>Number::toString\<close> of the
  JavaScript engine. For a safe integer (of magnitude at most \<open>2^53 - 1\<close>, the integers
  that a JavaScript number holds exactly and one apart) the result is the decimal
  numeral, with a minus sign for a negative number. Beyond the safe integers the engine
  prints the shortest digits that read back as the same double, and the exponent form
  from \<open>10^21\<close> on (\<^verbatim>\<open>1e+21\<close>); that part of the conversion is not in the sources
  and is the parameter \<open>fmt\<close>.
\<close>

definition digit :: "nat \<Rightarrow> char" where
  "digit n = ''0123456789'' ! (n mod 10)"

function nat_toString :: "nat \<Rightarrow> string" where
  "nat_toString n = (if n < 10 then [digit n] else nat_toString (n div 10) @ [digit n])"
  by pat_completeness auto
termination
  by (relation "measure (\<lambda>n. n)") auto

declare nat_toString.simps [simp del]

definition decimal :: "int \<Rightarrow> string" where
  "decimal i = (if i < 0 then ''-'' @ nat_toString (nat (- i)) else nat_toString (nat i))"

definition MAX_SAFE_INTEGER :: int where
  "MAX_SAFE_INTEGER = 9007199254740991"

definition number_toString :: "(int \<Rightarrow> string) \<Rightarrow> int \<Rightarrow> string" where
  "number_toString fmt i = (if \<bar>i\<bar> \<le> MAX_SAFE_INTEGER then decimal i else fmt i)"

text \<open>
  The only error the methods raise themselves is the \<^verbatim>\<open>TypeError\<close> of reading a
  property of \<^verbatim>\<open>undefined\<close>.
\<close>

datatype error = TypeError

subsection \<open>The host: output channels and tree items\<close>

text \<open>
  An \<^verbatim>\<open>OutputChannel\<close> is an object of the host, shared between the host and the
  map \<^verbatim>\<open>serverOutputChannels\<close>. The channels that \<^verbatim>\<open>window.createOutputChannel\<close>
  has created so far are a list, in the order of their creation; a reference to a
  channel is its position in the list. \<^verbatim>\<open>clear\<close>, \<^verbatim>\<open>append\<close>, \<^verbatim>\<open>show\<close> and
  \<^verbatim>\<open>dispose\<close> update the channel in place.
\<close>

record OutputChannel =
  name :: string
  content :: string
  visible :: bool
  disposed :: bool

type_synonym window = "OutputChannel list"

definition createOutputChannel :: "string \<Rightarrow> window \<Rightarrow> nat \<times> window" where
  "createOutputChannel n w =
     (length w, w @ [\<lparr>name = n, content = '''', visible = False, disposed = False\<rparr>])"

definition channel_clear :: "nat \<Rightarrow> window \<Rightarrow> window" where
  "channel_clear c w = w[c := (w ! c)\<lparr>content := ''''\<rparr>]"

definition channel_append :: "nat \<Rightarrow> string \<Rightarrow> window \<Rightarrow> window" where
  "channel_append c t w = w[c := (w ! c)\<lparr>content := content (w ! c) @ t\<rparr>]"

definition channel_show :: "nat \<Rightarrow> window \<Rightarrow> window" where
  "channel_show c w = w[c := (w ! c)\<lparr>visible := True\<rparr>]"

definition channel_dispose :: "nat \<Rightarrow> window \<Rightarrow> window" where
  "channel_dispose c w = w[c := (w ! c)\<lparr>disposed := True\<rparr>]"

text \<open>
  A \<^verbatim>\<open>TreeItem\<close>: its label, its icon (the path handed to \<^verbatim>\<open>path.join\<close> after
  \<^verbatim>\<open>__dirname\<close>) and its context value, which is \<^verbatim>\<open>undefined\<close> when the
  enum table has no entry.
\<close>

record TreeItem =
  label :: string
  iconPath :: string
  contextValue :: "string option"

subsection \<open>The fields of the class\<close>

text \<open>
  The fields both variants have; \<open>'n\<close> is the type of the argument of the change
  event (\<^verbatim>\<open>EventEmitter<Protocol.ServerHandle | undefined>\<close> in the first variant,
  \<^verbatim>\<open>EventEmitter<Protocol.ServerState | undefined>\<close> in the second). \<open>fired\<close> is the list
  of the events \<^verbatim>\<open>_onDidChangeTreeData\<close> has fired, oldest first, \<open>None\<close> for a
  firing without argument; \<open>channels\<close> is the host's list of output channels.
\<close>

record 'n provider =
  serverStatus :: "(string, ServerState) js_map"
  serverOutputChannels :: "(string, nat) js_map"
  runStateEnum :: "(int, string) js_map"
  publishStateEnum :: "(int, string) js_map"
  fired :: "'n option list"
  channels :: window

record provider_ht = "ServerHandle provider" +
  servers :: "(string, ServerHandle) js_map"

type_synonym provider_so = "ServerState provider"

text \<open>The tables the constructor fills, in the order of its \<^verbatim>\<open>set\<close> calls.\<close>

definition runStateEnum_init :: "(int, string) js_map" where
  "runStateEnum_init =
     Map_set (Map_set (Map_set (Map_set (Map_set [] 0 ''Unknown'') 1 ''Starting'')
       2 ''Started'') 3 ''Stopping'') 4 ''Stopped''"

definition publishStateEnum_init :: "(int, string) js_map" where
  "publishStateEnum_init =
     Map_set (Map_set (Map_set (Map_set (Map_set (Map_set [] 1 ''None'') 2 ''Incremental'')
       3 ''Full'') 4 ''Add'') 5 ''Remove'') 6 ''Unknown''"

subsection \<open>Methods of both variants\<close>

definition refresh :: "'n option \<Rightarrow> ('n, 'z) provider_scheme \<Rightarrow> ('n, 'z) provider_scheme" where
  "refresh data p = p\<lparr>fired := fired p @ [data]\<rparr>"

text \<open>
  \<^verbatim>\<open>addServerOutput\<close>; the configuration option
  \<^verbatim>\<open>vscodeAdapters.showChannelOnServerOutput\<close> is the argument \<open>cfg\<close>.
\<close>

definition addServerOutput ::
  "bool \<Rightarrow> ('n, 'z) provider_scheme \<Rightarrow> ServerProcessOutput \<Rightarrow> ('n, 'z) provider_scheme" where
  "addServerOutput cfg p output =
     (let i = id_field (ServerProcessOutput.server output);
          (channel, p1) =
            (case Map_get (serverOutputChannels p) i of
               None \<Rightarrow>
                 (let (c, w) = createOutputChannel (''Server: '' @ i) (channels p)
                  in (c, p\<lparr>channels := w,
                            serverOutputChannels := Map_set (serverOutputChannels p) i c\<rparr>))
             | Some c \<Rightarrow> (c, p));
          p2 = p1\<lparr>channels := channel_append channel (text_field output) (channels p1)\<rparr>
      in if cfg then p2\<lparr>channels := channel_show channel (channels p2)\<rparr> else p2)"

definition showOutput :: "('n, 'z) provider_scheme \<Rightarrow> ServerHandle \<Rightarrow> ('n, 'z) provider_scheme" where
  "showOutput p srv =
     (case Map_get (serverOutputChannels p) (id_field srv) of
        Some channel \<Rightarrow> p\<lparr>channels := channel_show channel (channels p)\<rparr>
      | None \<Rightarrow> p)"

text \<open>
  The end of \<^verbatim>\<open>removeServer\<close> in both variants: the channel is looked up, its entry
  deleted, and the channel, when there is one, cleared and disposed.
\<close>

definition release_channel :: "('n, 'z) provider_scheme \<Rightarrow> string \<Rightarrow> ('n, 'z) provider_scheme" where
  "release_channel p i =
     (let channel = Map_get (serverOutputChannels p) i;
          p1 = p\<lparr>serverOutputChannels := Map_delete (serverOutputChannels p) i\<rparr>
      in case channel of
           Some c \<Rightarrow> p1\<lparr>channels := channel_dispose c (channel_clear c (channels p1))\<rparr>
         | None \<Rightarrow> p1)"

text \<open>
  The end of \<^verbatim>\<open>updateServer\<close> in both variants: the channel of the identifier \<open>i\<close>
  is cleared when the event's state is \<^verbatim>\<open>ServerState.STARTING\<close> and there is a channel.
\<close>

definition clear_on_starting ::
  "('n, 'z) provider_scheme \<Rightarrow> string \<Rightarrow> ServerState \<Rightarrow> ('n, 'z) provider_scheme" where
  "clear_on_starting p i event =
     (case Map_get (serverOutputChannels p) i of
        Some channel \<Rightarrow>
          if ServerState.state event = STARTING
          then p\<lparr>channels := channel_clear channel (channels p)\<rparr> else p
      | None \<Rightarrow> p)"

subsection \<open>The handle-tracking variant\<close>

text \<open>
  The constructor leaves the maps empty and fills the two enum tables; \<open>w\<close> is the
  host's list of channels at that time. The handles that \<^verbatim>\<open>getServerHandles\<close> answers
  with are inserted one by one when the answer arrives.
\<close>

definition constructor_ht :: "window \<Rightarrow> provider_ht" where
  "constructor_ht w =
     \<lparr>serverStatus = [], serverOutputChannels = [], runStateEnum = runStateEnum_init,
      publishStateEnum = publishStateEnum_init, fired = [], channels = w, servers = []\<rparr>"

definition insertServer_ht :: "provider_ht \<Rightarrow> ServerHandle \<Rightarrow> provider_ht" where
  "insertServer_ht p handle =
     refresh None (p\<lparr>servers := Map_set (servers p) (id_field handle) handle\<rparr>)"

definition getServerHandles_then_ht :: "provider_ht \<Rightarrow> ServerHandle list \<Rightarrow> provider_ht" where
  "getServerHandles_then_ht p hs = fold (\<lambda>srv q. insertServer_ht q srv) hs p"

text \<open>
  \<^verbatim>\<open>updateServer\<close> reads \<^verbatim>\<open>value.id\<close> of the result of \<^verbatim>\<open>this.servers.get\<close>: when
  the map has no handle for the event's identifier, \<^verbatim>\<open>value\<close> is \<^verbatim>\<open>undefined\<close> and the
  read throws, before anything is written. The result is the exception, if any, and the
  fields as the call leaves them.
\<close>

definition updateServer_ht :: "provider_ht \<Rightarrow> ServerState \<Rightarrow> error option \<times> provider_ht" where
  "updateServer_ht p event =
     (case Map_get (servers p) (id_field (ServerState.server event)) of
        None \<Rightarrow> (Some TypeError, p)
      | Some val \<Rightarrow>
          (let p1 = p\<lparr>serverStatus := Map_set (serverStatus p) (id_field val) event\<rparr>;
               p2 = refresh (Some val) p1
           in (None, clear_on_starting p2 (id_field val) event)))"

definition removeServer_ht :: "provider_ht \<Rightarrow> ServerHandle \<Rightarrow> provider_ht" where
  "removeServer_ht p handle =
     (let p1 = p\<lparr>servers := Map_delete (servers p) (id_field handle)\<rparr>;
          p2 = p1\<lparr>serverStatus := Map_delete (serverStatus p1) (id_field handle)\<rparr>;
          p3 = refresh None p2
      in release_channel p3 (id_field handle))"

text \<open>
  The nodes of the tree are \<^verbatim>\<open>Protocol.ServerHandle | Protocol.ServerState |
  Protocol.DeployableState\<close>. \<^verbatim>\<open>getTreeItem\<close> tells them apart by their properties: a
  server state is the node with \<^verbatim>\<open>deployableStates\<close> (an array, which is truthy also
  when empty), a handle is the node with \<^verbatim>\<open>id\<close>, and the empty string is falsy.
  A deployable state has neither. A call that returns nothing returns \<^verbatim>\<open>undefined\<close>,
  here \<open>None\<close>.
\<close>

datatype node_ht =
  HandleNode ServerHandle
| StateNode_ht ServerState
| DeployableNode_ht DeployableState

fun getTreeItem_ht :: "provider_ht \<Rightarrow> node_ht \<Rightarrow> TreeItem option" where
  "getTreeItem_ht p (StateNode_ht item) = None"
| "getTreeItem_ht p (HandleNode item2) =
     (if id_field item2 \<noteq> '''' then
        (let id1 = id_field item2;
             status = Map_get (serverStatus p) id1;
             runState = (case status of None \<Rightarrow> 0 | Some st \<Rightarrow> ServerState.state st)
         in Some \<lparr>label = id1 @ '':'' @ visibleName (type_field item2) @ ''('' @
                      template (Map_get (runStateEnum p) runState) @ '')'',
                   iconPath = ''../../images/server-light.png'',
                   contextValue = Map_get (runStateEnum p) runState\<rparr>)
      else None)"
| "getTreeItem_ht p (DeployableNode_ht item) = None"

definition getChildren_ht :: "provider_ht \<Rightarrow> node_ht option \<Rightarrow> node_ht list option" where
  "getChildren_ht p element =
     (case element of
        None \<Rightarrow> Some (map HandleNode (Map_values (servers p)))
      | Some e \<Rightarrow> None)"

subsection \<open>The state-only variant\<close>

definition constructor_so :: "window \<Rightarrow> provider_so" where
  "constructor_so w =
     \<lparr>serverStatus = [], serverOutputChannels = [], runStateEnum = runStateEnum_init,
      publishStateEnum = publishStateEnum_init, fired = [], channels = w\<rparr>"

definition insertServer_so :: "provider_so \<Rightarrow> ServerHandle \<Rightarrow> provider_so" where
  "insertServer_so p handle = refresh None p"

definition getServerHandles_then_so :: "provider_so \<Rightarrow> ServerHandle list \<Rightarrow> provider_so" where
  "getServerHandles_then_so p hs = fold (\<lambda>srv q. insertServer_so q srv) hs p"

definition updateServer_so :: "provider_so \<Rightarrow> ServerState \<Rightarrow> provider_so" where
  "updateServer_so p event =
     (let i = id_field (ServerState.server event);
          p1 = p\<lparr>serverStatus := Map_set (serverStatus p) i event\<rparr>;
          p2 = refresh (Some event) p1
      in clear_on_starting p2 i event)"

definition removeServer_so :: "provider_so \<Rightarrow> ServerHandle \<Rightarrow> provider_so" where
  "removeServer_so p handle =
     (let p1 = p\<lparr>serverStatus := Map_delete (serverStatus p) (id_field handle)\<rparr>;
          p2 = refresh None p1
      in release_channel p2 (id_field handle))"

text \<open>
  The nodes are \<^verbatim>\<open>Protocol.ServerState | Protocol.DeployableState\<close>: the node with
  \<^verbatim>\<open>deployableStates\<close> is a server state, the node with \<^verbatim>\<open>reference\<close> (an object,
  which is truthy) a deployable state. \<open>fmt\<close> is the engine's conversion of the numbers
  beyond the safe integers, which the label of a deployable node goes through.
\<close>

datatype node_so =
  StateNode ServerState
| DeployableNode DeployableState

fun getTreeItem_so :: "(int \<Rightarrow> string) \<Rightarrow> provider_so \<Rightarrow> node_so \<Rightarrow> TreeItem option" where
  "getTreeItem_so fmt p (StateNode item) =
     (let item2 = ServerState.server item;
          id1 = id_field item2;
          status = Map_get (serverStatus p) id1;
          runState = (case status of None \<Rightarrow> 0 | Some st \<Rightarrow> ServerState.state st)
      in Some \<lparr>label = id1 @ '':'' @ visibleName (type_field item2) @ ''('' @
                   template (Map_get (runStateEnum p) runState) @ '')'',
                iconPath = ''../../images/server-light.png'',
                contextValue = Map_get (runStateEnum p) runState\<rparr>)"
| "getTreeItem_so fmt p (DeployableNode item2) =
     Some \<lparr>label = ''I am a deployment: '' @ number_toString fmt (DeployableState.state item2),
           iconPath = ''../../images/server-light.png'',
           contextValue = Map_get (runStateEnum p) (DeployableState.state item2)\<rparr>"

definition getChildren_so :: "provider_so \<Rightarrow> node_so option \<Rightarrow> node_so list option" where
  "getChildren_so p element =
     (case element of
        None \<Rightarrow> Some (map StateNode (Map_values (serverStatus p)))
      | Some (StateNode s) \<Rightarrow> Some (map DeployableNode (deployableStates s))
      | Some (DeployableNode d) \<Rightarrow> None)"

subsection \<open>The server-creation workflow\<close>

text \<open>
  \<^verbatim>\<open>addLocation\<close> is a chain of promise callbacks over four answers of the outside
  world, which are the fields of \<open>world\<close>: what the folder dialog resolves to (the
  paths of the chosen folders, or \<^verbatim>\<open>undefined\<close>), what \<^verbatim>\<open>findServerBeans\<close> answers
  for a path, what the input box resolves to (the name, or \<^verbatim>\<open>undefined\<close>), and the
  status \<^verbatim>\<open>createServerAsync\<close> answers with. The chain is the same in both variants
  but for the map that the \<^verbatim>\<open>validateInput\<close> callback of the input box consults;
  the host runs that callback, and the box resolves to the argument given here.
  The result is how the promise settles, and the requests sent to the client, oldest
  first. A string that is absent or empty is falsy; an array, also an empty one, is
  truthy.
\<close>

record world =
  showOpenDialog :: "string list option"
  findServerBeans :: "string \<Rightarrow> ServerBean list"
  showInputBox :: "string option"
  createServerAsync :: "ServerBean \<Rightarrow> string \<Rightarrow> Status"

datatype request = FindServerBeans string | CreateServerAsync ServerBean string

datatype settled = Rejected string | Resolved "Status option"

definition truthy :: "string option \<Rightarrow> bool" where
  "truthy s = (case s of None \<Rightarrow> False | Some t \<Rightarrow> t \<noteq> '''')"

definition addLocation :: "world \<Rightarrow> settled \<times> request list" where
  "addLocation w =
     (let (serverBeans, reqs) =
            (case showOpenDialog w of
               Some [folder] \<Rightarrow> (Some (findServerBeans w folder), [FindServerBeans folder])
             | _ \<Rightarrow> (None, []))
      in case serverBeans of
           Some (bean # rest) \<Rightarrow>
             if truthy (typeCategory bean) \<and> typeCategory bean \<noteq> Some ''UNKNOWN'' then
               (case showInputBox w of
                  None \<Rightarrow> (Resolved None, reqs)
                | Some n \<Rightarrow>
                    if n \<noteq> '''' then
                      (let status = createServerAsync w bean n
                       in (if severity status > 0 then Rejected (message status)
                           else Resolved (Some status),
                           reqs @ [CreateServerAsync bean n]))
                    else (Resolved None, reqs))
             else (Rejected ''Cannot detect server in selected location!'', reqs)
         | Some [] \<Rightarrow> (Rejected ''Cannot detect server in selected location!'', reqs)
         | None \<Rightarrow> (Resolved None, reqs))"

subsection \<open>Sequences of state events\<close>

text \<open>
  The control service delivers the state events one at a time, each to its own call of
  \<^verbatim>\<open>updateServer\<close>; an exception ends the handling of that event only, and the next
  event finds the fields as the failed call left them.
\<close>

definition updates_so :: "provider_so \<Rightarrow> ServerState list \<Rightarrow> provider_so" where
  "updates_so p evs = fold (\<lambda>ev q. updateServer_so q ev) evs p"

definition updates_ht :: "provider_ht \<Rightarrow> ServerState list \<Rightarrow> provider_ht" where
  "updates_ht p evs = fold (\<lambda>ev q. snd (updateServer_ht q ev)) evs p"

text \<open>
  In the words of the specification: the last event of a sequence that carries the
  identifier \<open>i\<close>, if there is one.
\<close>

definition last_event :: "string \<Rightarrow> ServerState list \<Rightarrow> ServerState option" where
  "last_event i evs = find (\<lambda>ev. id_field (ServerState.server ev) = i) (rev evs)"

text \<open>
  \<^verbatim>\<open>insertServer\<close> files every handle under its own identifier, and nothing else
  writes to \<^verbatim>\<open>servers\<close>: every key of the map is the identifier of its handle.
\<close>

definition handles_keyed :: "(string, ServerHandle) js_map \<Rightarrow> bool" where
  "handles_keyed m = list_all (\<lambda>(k, h). id_field h = k) m"

subsection \<open>Concrete inputs\<close>

definition tomcat_s1 :: ServerHandle where
  "tomcat_s1 = \<lparr>id_field = ''s1'', type_field = \<lparr>visibleName = ''Tomcat''\<rparr>\<rparr>"

definition war :: "string \<Rightarrow> int \<Rightarrow> DeployableState" where
  "war n c = \<lparr>reference = \<lparr>ref_name = n\<rparr>, state = c\<rparr>"

definition s1_event :: "int \<Rightarrow> DeployableState list \<Rightarrow> ServerState" where
  "s1_event c ds = \<lparr>server = tomcat_s1, state = c, deployableStates = ds\<rparr>"

definition s1_output :: "string \<Rightarrow> ServerProcessOutput" where
  "s1_output t = \<lparr>ServerProcessOutput.server = tomcat_s1, text_field = t\<rparr>"

text \<open>
  No state code of the concrete inputs lies beyond the safe integers; the conversion of
  such numbers is fixed to what the engine prints for \<open>10^21\<close>.
\<close>

definition fmt_1e21 :: "int \<Rightarrow> string" where
  "fmt_1e21 i = ''1e+21''"

text \<open>
  The state-only provider after the outputs \<open>a\<close> and \<open>b\<close> of server \<open>s1\<close>; the
  handle-tracking provider after the same outputs, with the handle of \<open>s1\<close> inserted
  before and without it.
\<close>

definition so_ab :: provider_so where
  "so_ab =
     addServerOutput False (addServerOutput False (constructor_so []) (s1_output ''a''))
       (s1_output ''b'')"

definition ht_ab :: provider_ht where
  "ht_ab =
     addServerOutput False
       (addServerOutput False (insertServer_ht (constructor_ht []) tomcat_s1) (s1_output ''a''))
       (s1_output ''b'')"

definition ht_ab_unregistered :: provider_ht where
  "ht_ab_unregistered =
     addServerOutput False (addServerOutput False (constructor_ht []) (s1_output ''a''))
       (s1_output ''b'')"

text \<open>
  A world in which the folder dialog resolves to \<open>d\<close>, the discovery answers \<open>bs\<close>, the
  user names the server \<open>s1\<close> and the creation succeeds.
\<close>

definition world_of :: "string list option \<Rightarrow> ServerBean list \<Rightarrow> world" where
  "world_of d bs =
     \<lparr>showOpenDialog = d, findServerBeans = (\<lambda>f. bs), showInputBox = Some ''s1'',
      createServerAsync = (\<lambda>b n. \<lparr>severity = 0, message = ''ok''\<rparr>)\<rparr>"

section \<open>Properties\<close>

subsection \<open>Maps, fields and channels\<close>

lemmas ex_defs = tomcat_s1_def war_def s1_event_def s1_output_def world_of_def

lemmas op_defs = constructor_ht_def constructor_so_def insertServer_ht_def insertServer_so_def
  updateServer_ht_def updateServer_so_def removeServer_ht_def removeServer_so_def
  refresh_def clear_on_starting_def release_channel_def addServerOutput_def
  createOutputChannel_def channel_clear_def channel_append_def channel_show_def
  channel_dispose_def Map_get_def Map_set_def Map_delete_def Map_values_def STARTING_def Let_def

lemma Map_get_set: "Map_get (Map_set m k v) k' = (if k' = k then Some v else Map_get m k')"
  by (simp add: Map_get_def Map_set_def update_conv')

lemma Map_get_delete: "Map_get (Map_delete m k) k' = (if k' = k then None else Map_get m k')"
  by (simp add: Map_get_def Map_delete_def delete_conv')

lemma values_Map_set: "v \<in> set (Map_values (Map_set m k v))"
  unfolding Map_values_def Map_set_def by (induction m) auto

lemma MAX_SAFE_INTEGER_power: "MAX_SAFE_INTEGER = 2 ^ 53 - 1"
  by (simp add: MAX_SAFE_INTEGER_def)

lemma Map_get_runStateEnum_init:
  "Map_get runStateEnum_init n =
     (if n = 0 then Some ''Unknown'' else if n = 1 then Some ''Starting''
      else if n = 2 then Some ''Started'' else if n = 3 then Some ''Stopping''
      else if n = 4 then Some ''Stopped'' else None)"
  by (simp add: runStateEnum_init_def Map_get_set) (simp add: Map_get_def)

lemma refresh_fields [simp]:
  "serverStatus (refresh d p) = serverStatus p"
  "serverOutputChannels (refresh d p) = serverOutputChannels p"
  "runStateEnum (refresh d p) = runStateEnum p"
  "publishStateEnum (refresh d p) = publishStateEnum p"
  "channels (refresh d p) = channels p"
  "fired (refresh d p) = fired p @ [d]"
  by (simp_all add: refresh_def)

lemma servers_refresh [simp]: "servers (refresh d p) = servers p"
  by (simp add: refresh_def)

lemma clear_on_starting_fields [simp]:
  "serverStatus (clear_on_starting p i ev) = serverStatus p"
  "serverOutputChannels (clear_on_starting p i ev) = serverOutputChannels p"
  "runStateEnum (clear_on_starting p i ev) = runStateEnum p"
  "publishStateEnum (clear_on_starting p i ev) = publishStateEnum p"
  "fired (clear_on_starting p i ev) = fired p"
  by (simp_all add: clear_on_starting_def split: option.splits)

lemma servers_clear_on_starting [simp]: "servers (clear_on_starting p i ev) = servers p"
  by (simp add: clear_on_starting_def split: option.splits)

lemma release_channel_fields [simp]:
  "serverStatus (release_channel p i) = serverStatus p"
  "runStateEnum (release_channel p i) = runStateEnum p"
  "publishStateEnum (release_channel p i) = publishStateEnum p"
  "fired (release_channel p i) = fired p"
  by (simp_all add: release_channel_def Let_def split: option.splits)

lemma addServerOutput_fields [simp]:
  "serverStatus (addServerOutput cfg p out) = serverStatus p"
  "runStateEnum (addServerOutput cfg p out) = runStateEnum p"
  "publishStateEnum (addServerOutput cfg p out) = publishStateEnum p"
  "fired (addServerOutput cfg p out) = fired p"
  by (simp_all add: addServerOutput_def createOutputChannel_def Let_def split: option.splits)

text \<open>No method writes to the run-state table that the constructor fills.\<close>

lemma runStateEnum_fixed:
  "runStateEnum (constructor_ht w) = runStateEnum_init"
  "runStateEnum (constructor_so w) = runStateEnum_init"
  "runStateEnum (insertServer_ht p h) = runStateEnum p"
  "runStateEnum (snd (updateServer_ht p ev)) = runStateEnum p"
  "runStateEnum (removeServer_ht p h) = runStateEnum p"
  "runStateEnum (insertServer_so q h) = runStateEnum q"
  "runStateEnum (updateServer_so q ev) = runStateEnum q"
  "runStateEnum (removeServer_so q h) = runStateEnum q"
  by (simp_all add: constructor_ht_def constructor_so_def insertServer_ht_def
      updateServer_ht_def removeServer_ht_def insertServer_so_def updateServer_so_def
      removeServer_so_def Let_def split: option.splits)

lemma updateServer_ht_no_handle:
  "Map_get (servers p) (id_field (ServerState.server ev)) = None \<Longrightarrow>
   updateServer_ht p ev = (Some TypeError, p)"
  by (simp add: updateServer_ht_def)

lemma serverStatus_updateServer_so [simp]:
  "serverStatus (updateServer_so p ev) =
     Map_set (serverStatus p) (id_field (ServerState.server ev)) ev"
  by (simp add: updateServer_so_def Let_def)

lemma channel_lengths [simp]:
  "length (channel_clear c w) = length w"
  "length (channel_append c t w) = length w"
  "length (channel_show c w) = length w"
  "length (channel_dispose c w) = length w"
  by (simp_all add: channel_clear_def channel_append_def channel_show_def channel_dispose_def)

subsection \<open>Last write wins\<close>

lemma handles_keyedD: "handles_keyed m \<Longrightarrow> Map_get m k = Some h \<Longrightarrow> id_field h = k"
  unfolding handles_keyed_def Map_get_def
  by (auto simp: list_all_iff dest: map_of_SomeD)

lemma handles_keyed_Map_set:
  "handles_keyed m \<Longrightarrow> handles_keyed (Map_set m (id_field h) h)"
  unfolding handles_keyed_def Map_set_def
  by (induction m) auto

lemma handles_keyed_insertServer_ht:
  "handles_keyed (servers p) \<Longrightarrow> handles_keyed (servers (insertServer_ht p h))"
  by (simp add: insertServer_ht_def handles_keyed_Map_set)

lemma last_event_Nil: "last_event i [] = None"
  by (simp add: last_event_def)

lemma find_append_cases:
  "find P (xs @ ys) = (case find P xs of Some x \<Rightarrow> Some x | None \<Rightarrow> find P ys)"
  by (induction xs) auto

lemma last_event_Cons:
  "last_event i (ev # evs) =
     (case last_event i evs of Some e \<Rightarrow> Some e
      | None \<Rightarrow> if id_field (ServerState.server ev) = i then Some ev else None)"
  by (auto simp: last_event_def find_append_cases split: option.splits)

lemma updates_so_status:
  "Map_get (serverStatus (updates_so p evs)) i =
     (case last_event i evs of Some ev \<Rightarrow> Some ev | None \<Rightarrow> Map_get (serverStatus p) i)"
proof (induction evs arbitrary: p)
  case Nil
  show ?case by (simp add: updates_so_def last_event_Nil)
next
  case (Cons ev evs)
  have "updates_so p (ev # evs) = updates_so (updateServer_so p ev) evs"
    by (simp add: updates_so_def)
  then show ?case
    using Cons.IH [of "updateServer_so p ev"]
    by (simp add: last_event_Cons Map_get_set split: option.splits)
qed

lemma updateServer_ht_servers [simp]: "servers (snd (updateServer_ht p ev)) = servers p"
  by (simp add: updateServer_ht_def Let_def split: option.splits)

lemma updateServer_ht_status:
  assumes "handles_keyed (servers p)"
  shows "serverStatus (snd (updateServer_ht p ev)) =
     (case Map_get (servers p) (id_field (ServerState.server ev)) of
        None \<Rightarrow> serverStatus p
      | Some h \<Rightarrow> Map_set (serverStatus p) (id_field (ServerState.server ev)) ev)"
  using handles_keyedD [OF assms]
  by (auto simp: updateServer_ht_def Let_def split: option.splits)

lemma updates_ht_servers [simp]: "servers (updates_ht p evs) = servers p"
  unfolding updates_ht_def by (induction evs arbitrary: p) simp_all

lemma updates_ht_status:
  assumes "handles_keyed (servers p)" and "Map_get (servers p) i \<noteq> None"
  shows "Map_get (serverStatus (updates_ht p evs)) i =
     (case last_event i evs of Some ev \<Rightarrow> Some ev | None \<Rightarrow> Map_get (serverStatus p) i)"
  using assms
proof (induction evs arbitrary: p)
  case Nil
  show ?case by (simp add: updates_ht_def last_event_Nil)
next
  case (Cons ev evs)
  let ?p' = "snd (updateServer_ht p ev)"
  have step: "updates_ht p (ev # evs) = updates_ht ?p' evs"
    by (simp add: updates_ht_def)
  have IH: "Map_get (serverStatus (updates_ht ?p' evs)) i =
     (case last_event i evs of Some ev \<Rightarrow> Some ev | None \<Rightarrow> Map_get (serverStatus ?p') i)"
    using Cons.IH [of ?p'] Cons.prems by simp
  have here: "Map_get (serverStatus ?p') i =
     (if id_field (ServerState.server ev) = i then Some ev else Map_get (serverStatus p) i)"
    using Cons.prems
    by (auto simp: updateServer_ht_status Map_get_set split: option.splits)
  show ?case
    unfolding step IH here
    by (simp add: last_event_Cons split: option.splits)
qed

subsection \<open>Output channels\<close>

lemma addServerOutput_new:
  assumes "Map_get (serverOutputChannels p) (id_field (ServerProcessOutput.server out)) = None"
  shows "addServerOutput cfg p out =
     p\<lparr>channels := channels p @
            [\<lparr>name = ''Server: '' @ id_field (ServerProcessOutput.server out),
              content = text_field out, visible = cfg, disposed = False\<rparr>],
       serverOutputChannels :=
         Map_set (serverOutputChannels p) (id_field (ServerProcessOutput.server out))
           (length (channels p))\<rparr>"
  using assms
  by (simp add: addServerOutput_def createOutputChannel_def channel_append_def
      channel_show_def Let_def)

lemma addServerOutput_old:
  assumes "Map_get (serverOutputChannels p) (id_field (ServerProcessOutput.server out)) = Some c"
    and "c < length (channels p)"
  shows "addServerOutput cfg p out =
     p\<lparr>channels := (channels p)
            [c := (channels p ! c)\<lparr>content := content (channels p ! c) @ text_field out,
                                 visible := visible (channels p ! c) \<or> cfg\<rparr>]\<rparr>"
  using assms
  by (simp add: addServerOutput_def channel_append_def channel_show_def Let_def)

lemma append_twice:
  assumes "Map_get (serverOutputChannels p) i = None"
    and "id_field (ServerProcessOutput.server o1) = i"
    and "id_field (ServerProcessOutput.server o2) = i"
  shows "Map_get (serverOutputChannels (addServerOutput cfg (addServerOutput cfg p o1) o2)) i
           = Some (length (channels p)) \<and>
         length (channels (addServerOutput cfg (addServerOutput cfg p o1) o2))
           = Suc (length (channels p)) \<and>
         content (channels (addServerOutput cfg (addServerOutput cfg p o1) o2) ! length (channels p))
           = text_field o1 @ text_field o2 \<and>
         \<not> disposed (channels (addServerOutput cfg (addServerOutput cfg p o1) o2) ! length (channels p))"
proof -
  let ?p1 = "addServerOutput cfg p o1"
  have p1: "?p1 = p\<lparr>channels := channels p @
            [\<lparr>name = ''Server: '' @ i, content = text_field o1, visible = cfg, disposed = False\<rparr>],
       serverOutputChannels := Map_set (serverOutputChannels p) i (length (channels p))\<rparr>"
    using addServerOutput_new [of p o1 cfg] assms by simp
  have g: "Map_get (serverOutputChannels ?p1) (id_field (ServerProcessOutput.server o2))
     = Some (length (channels p))"
    by (simp add: p1 assms Map_get_set)
  have l: "length (channels p) < length (channels ?p1)"
    by (simp add: p1)
  show ?thesis
    unfolding addServerOutput_old [OF g l]
    by (simp add: p1 Map_get_set)
qed

lemma starting_clears:
  assumes "Map_get (serverOutputChannels p) i = Some c" and "c < length (channels p)"
    and "ServerState.state ev = STARTING"
  shows "channels (clear_on_starting p i ev) = (channels p)[c := (channels p ! c)\<lparr>content := ''''\<rparr>]"
  using assms by (simp add: clear_on_starting_def channel_clear_def)

lemma starting_clears_so:
  assumes "Map_get (serverOutputChannels q) i = Some c" and "c < length (channels q)"
    and "id_field (ServerState.server ev) = i" and "ServerState.state ev = STARTING"
  shows "Map_get (serverOutputChannels (updateServer_so q ev)) i = Some c \<and>
         length (channels (updateServer_so q ev)) = length (channels q) \<and>
         content (channels (updateServer_so q ev) ! c) = '''' \<and>
         disposed (channels (updateServer_so q ev) ! c) = disposed (channels q ! c)"
  using assms
  by (simp add: updateServer_so_def Let_def starting_clears)

lemma starting_clears_ht:
  assumes "Map_get (serverOutputChannels p) i = Some c" and "c < length (channels p)"
    and "id_field (ServerState.server ev) = i" and "ServerState.state ev = STARTING"
    and "Map_get (servers p) i = Some h" and "id_field h = i"
  shows "Map_get (serverOutputChannels (snd (updateServer_ht p ev))) i = Some c \<and>
         length (channels (snd (updateServer_ht p ev))) = length (channels p) \<and>
         content (channels (snd (updateServer_ht p ev)) ! c) = '''' \<and>
         disposed (channels (snd (updateServer_ht p ev)) ! c) = disposed (channels p ! c)"
  using assms
  by (simp add: updateServer_ht_def Let_def starting_clears)

lemma release_then_append:
  assumes "Map_get (serverOutputChannels p) i = Some c" and "c < length (channels p)"
    and "id_field (ServerProcessOutput.server out) = i"
  shows "Map_get (serverOutputChannels (addServerOutput cfg (release_channel p i) out)) i
           = Some (length (channels p)) \<and>
         content (channels (addServerOutput cfg (release_channel p i) out) ! length (channels p))
           = text_field out \<and>
         \<not> disposed (channels (addServerOutput cfg (release_channel p i) out) ! length (channels p)) \<and>
         disposed (channels (addServerOutput cfg (release_channel p i) out) ! c) \<and>
         content (channels (addServerOutput cfg (release_channel p i) out) ! c) = ''''"
proof -
  let ?r = "release_channel p i"
  have r: "?r = p\<lparr>serverOutputChannels := Map_delete (serverOutputChannels p) i,
                  channels := (channels p)[c := (channels p ! c)\<lparr>content := '''', disposed := True\<rparr>]\<rparr>"
    using assms by (simp add: release_channel_def Let_def channel_dispose_def channel_clear_def)
  have g: "Map_get (serverOutputChannels ?r) (id_field (ServerProcessOutput.server out)) = None"
    by (simp add: r assms Map_get_delete)
  show ?thesis
    unfolding addServerOutput_new [OF g]
    using assms by (simp add: r Map_get_set nth_append)
qed

lemma remove_then_append_so:
  assumes "Map_get (serverOutputChannels q) (id_field h) = Some c" and "c < length (channels q)"
    and "id_field (ServerProcessOutput.server out) = id_field h"
  shows "Map_get (serverOutputChannels (addServerOutput cfg (removeServer_so q h) out)) (id_field h)
           = Some (length (channels q)) \<and>
         content (channels (addServerOutput cfg (removeServer_so q h) out) ! length (channels q))
           = text_field out \<and>
         \<not> disposed (channels (addServerOutput cfg (removeServer_so q h) out) ! length (channels q)) \<and>
         disposed (channels (addServerOutput cfg (removeServer_so q h) out) ! c) \<and>
         content (channels (addServerOutput cfg (removeServer_so q h) out) ! c) = ''''"
  using release_then_append
    [of "refresh None (q\<lparr>serverStatus := Map_delete (serverStatus q) (id_field h)\<rparr>)"
        "id_field h" c out cfg] assms
  by (simp add: removeServer_so_def Let_def)

lemma remove_then_append_ht:
  assumes "Map_get (serverOutputChannels p) (id_field h) = Some c" and "c < length (channels p)"
    and "id_field (ServerProcessOutput.server out) = id_field h"
  shows "Map_get (serverOutputChannels (addServerOutput cfg (removeServer_ht p h) out)) (id_field h)
           = Some (length (channels p)) \<and>
         content (channels (addServerOutput cfg (removeServer_ht p h) out) ! length (channels p))
           = text_field out \<and>
         \<not> disposed (channels (addServerOutput cfg (removeServer_ht p h) out) ! length (channels p)) \<and>
         disposed (channels (addServerOutput cfg (removeServer_ht p h) out) ! c) \<and>
         content (channels (addServerOutput cfg (removeServer_ht p h) out) ! c) = ''''"
  using release_then_append
    [of "refresh None (p\<lparr>servers := Map_delete (servers p) (id_field h),
                          serverStatus := Map_delete (serverStatus p) (id_field h)\<rparr>)"
        "id_field h" c out cfg] assms
  by (simp add: removeServer_ht_def Let_def)

lemma so_ab_eval:
  "so_ab = \<lparr>serverStatus = [], serverOutputChannels = [(''s1'', 0)],
      runStateEnum = runStateEnum_init, publishStateEnum = publishStateEnum_init, fired = [],
      channels = [\<lparr>name = ''Server: s1'', content = ''ab'', visible = False, disposed = False\<rparr>]\<rparr>"
  by (simp add: so_ab_def op_defs ex_defs)

lemma ht_ab_eval:
  "ht_ab = \<lparr>serverStatus = [], serverOutputChannels = [(''s1'', 0)],
      runStateEnum = runStateEnum_init, publishStateEnum = publishStateEnum_init, fired = [None],
      channels = [\<lparr>name = ''Server: s1'', content = ''ab'', visible = False, disposed = False\<rparr>],
      servers = [(''s1'', tomcat_s1)]\<rparr>"
  by (simp add: ht_ab_def op_defs ex_defs)

section \<open>The claims\<close>

text \<open>
  C1, at a concrete input. The claim: in the handle-tracking variant, \<^verbatim>\<open>updateServer\<close>
  with an event whose server identifier has no entry in \<^verbatim>\<open>servers\<close> is a silent no-op
  that never throws. The code: on the provider as the constructor leaves it (the answer
  of \<^verbatim>\<open>getServerHandles\<close> has not arrived yet), an event for \<open>s1\<close> throws the
  \<^verbatim>\<open>TypeError\<close> of reading \<^verbatim>\<open>value.id\<close> of \<^verbatim>\<open>undefined\<close>; the fields stay as
  they were.
\<close>

theorem updateServer_ht_unknown_throws:
  "updateServer_ht (constructor_ht []) (s1_event 2 []) = (Some TypeError, constructor_ht [])"
  by (simp add: updateServer_ht_no_handle constructor_ht_def s1_event_def tomcat_s1_def Map_get_def)

text \<open>
  C2, as stated, fails in the handle-tracking variant: after a single state event for
  \<open>s1\<close>, whose handle was never inserted, the state map has no entry for \<open>s1\<close>, while
  the last event with that identifier is the event itself.
\<close>

theorem last_write_lost_without_handle:
  "Map_get (serverStatus (updates_ht (constructor_ht []) [s1_event 2 []])) ''s1'' = None \<and>
   last_event ''s1'' [s1_event 2 []] = Some (s1_event 2 [])"
  by (simp add: updates_ht_def last_event_def op_defs ex_defs)

text \<open>
  C2, amended: last write wins. In the state-only variant, after any sequence of
  \<^verbatim>\<open>updateServer\<close> calls the state stored for an identifier \<open>i\<close> is exactly the last
  event of the sequence that carries \<open>i\<close>, whatever other identifiers are interleaved
  (and the entry is the one from before when no event carries \<open>i\<close>); the stored value is
  the whole event, deployable list included. In the handle-tracking variant the same
  holds for every identifier that has a handle in \<^verbatim>\<open>servers\<close>, the handles being filed
  under their own identifiers.
\<close>

theorem last_write_wins:
  fixes q :: provider_so and p :: provider_ht
  shows "Map_get (serverStatus (updates_so q evs)) i =
           (case last_event i evs of Some ev \<Rightarrow> Some ev | None \<Rightarrow> Map_get (serverStatus q) i) \<and>
         (handles_keyed (servers p) \<and> Map_get (servers p) i \<noteq> None \<longrightarrow>
          Map_get (serverStatus (updates_ht p evs)) i =
           (case last_event i evs of Some ev \<Rightarrow> Some ev | None \<Rightarrow> Map_get (serverStatus p) i))"
  using updates_so_status updates_ht_status by blast

text \<open>
  Witness for C2: with the handle of \<open>s1\<close> inserted, a Starting event and then a
  Started event with one deployable leave exactly the second event in the map.
\<close>

theorem last_write_wins_witness:
  "handles_keyed (servers (insertServer_ht (constructor_ht []) tomcat_s1)) \<and>
   Map_get (servers (insertServer_ht (constructor_ht []) tomcat_s1)) ''s1'' \<noteq> None \<and>
   Map_get (serverStatus (updates_ht (insertServer_ht (constructor_ht []) tomcat_s1)
      [s1_event 1 [], s1_event 2 [war ''a.war'' 1]])) ''s1'' = Some (s1_event 2 [war ''a.war'' 1]) \<and>
   Map_get (serverStatus (updates_so (constructor_so [])
      [s1_event 1 [], s1_event 2 [war ''a.war'' 1]])) ''s1'' = Some (s1_event 2 [war ''a.war'' 1])"
  using last_write_wins [where p = "insertServer_ht (constructor_ht []) tomcat_s1"
      and q = "constructor_so []"
      and evs = "[s1_event 1 [], s1_event 2 [war ''a.war'' 1]]" and i = "''s1''"]
  by (simp add: last_event_def handles_keyed_def op_defs ex_defs)

text \<open>
  C3, as stated, fails when the discovery answers with no beans: the empty array is
  truthy, so the promise is rejected with the error instead of resolving silently.
\<close>

theorem addLocation_empty_beans_rejected:
  "addLocation (world_of (Some [''/srv'']) []) =
     (Rejected ''Cannot detect server in selected location!'', [FindServerBeans ''/srv''])"
  by (simp add: addLocation_def world_of_def)

text \<open>
  C3, amended. When the discovery has answered and the first bean's category is absent,
  empty or \<open>UNKNOWN\<close>, the workflow fails with the error
  \<open>Cannot detect server in selected location!\<close>; it fails in the same way when the
  discovery answers with an empty list; in both cases the only request sent is the
  discovery. When no discovery was made (the folder dialog was cancelled or did not
  resolve to exactly one folder), the workflow resolves to nothing, without error and
  without any request to the control service.
\<close>

theorem addLocation_detection:
  "(showOpenDialog w = Some [folder] \<and> findServerBeans w folder = bean # rest \<and>
      (typeCategory bean = None \<or> typeCategory bean = Some '''' \<or>
       typeCategory bean = Some ''UNKNOWN'') \<longrightarrow>
      addLocation w =
        (Rejected ''Cannot detect server in selected location!'', [FindServerBeans folder])) \<and>
   (showOpenDialog w = Some [folder] \<and> findServerBeans w folder = [] \<longrightarrow>
      addLocation w =
        (Rejected ''Cannot detect server in selected location!'', [FindServerBeans folder])) \<and>
   ((\<forall>f. showOpenDialog w \<noteq> Some [f]) \<longrightarrow> addLocation w = (Resolved None, []))"
proof (intro conjI impI)
  assume "showOpenDialog w = Some [folder] \<and> findServerBeans w folder = bean # rest \<and>
      (typeCategory bean = None \<or> typeCategory bean = Some '''' \<or>
       typeCategory bean = Some ''UNKNOWN'')"
  then show "addLocation w =
        (Rejected ''Cannot detect server in selected location!'', [FindServerBeans folder])"
    by (auto simp: addLocation_def truthy_def)
next
  assume "showOpenDialog w = Some [folder] \<and> findServerBeans w folder = []"
  then show "addLocation w =
        (Rejected ''Cannot detect server in selected location!'', [FindServerBeans folder])"
    by (simp add: addLocation_def)
next
  assume none: "\<forall>f. showOpenDialog w \<noteq> Some [f]"
  show "addLocation w = (Resolved None, [])"
  proof (cases "showOpenDialog w")
    case None
    then show ?thesis by (simp add: addLocation_def)
  next
    case (Some fs)
    with none have "\<forall>f. fs \<noteq> [f]" by simp
    with Some show ?thesis
      by (cases fs; cases "tl fs") (auto simp: addLocation_def)
  qed
qed

text \<open>
  Witness for C3: one bean of category \<open>UNKNOWN\<close>, one bean without category, an empty
  answer, and a cancelled dialog.
\<close>

theorem addLocation_detection_witness:
  "addLocation (world_of (Some [''/srv'']) [\<lparr>typeCategory = Some ''UNKNOWN''\<rparr>]) =
     (Rejected ''Cannot detect server in selected location!'', [FindServerBeans ''/srv'']) \<and>
   addLocation (world_of (Some [''/srv'']) [\<lparr>typeCategory = None\<rparr>]) =
     (Rejected ''Cannot detect server in selected location!'', [FindServerBeans ''/srv'']) \<and>
   addLocation (world_of (Some [''/srv'']) []) =
     (Rejected ''Cannot detect server in selected location!'', [FindServerBeans ''/srv'']) \<and>
   addLocation (world_of None [\<lparr>typeCategory = Some ''UNKNOWN''\<rparr>]) = (Resolved None, [])"
  using
    addLocation_detection [where w = "world_of (Some [''/srv'']) [\<lparr>typeCategory = Some ''UNKNOWN''\<rparr>]"
      and folder = "''/srv''" and bean = "\<lparr>typeCategory = Some ''UNKNOWN''\<rparr>" and rest = "[]"]
    addLocation_detection [where w = "world_of (Some [''/srv'']) [\<lparr>typeCategory = None\<rparr>]"
      and folder = "''/srv''" and bean = "\<lparr>typeCategory = None\<rparr>" and rest = "[]"]
    addLocation_detection [where w = "world_of (Some [''/srv'']) []" and folder = "''/srv''"]
    addLocation_detection [where w = "world_of None [\<lparr>typeCategory = Some ''UNKNOWN''\<rparr>]"]
  by (simp add: world_of_def)

text \<open>
  C4: for the server node with the handle \<open>{id: "s1", type.visibleName: "Tomcat"}\<close>,
  \<^verbatim>\<open>getTreeItem\<close> gives the label \<open>s1:Tomcat(Started)\<close> when the state stored for
  \<open>s1\<close> has the run-state code 2, and \<open>s1:Tomcat(Unknown)\<close> when no state is stored
  for \<open>s1\<close>. The node is the handle in the handle-tracking variant and a server state
  with that handle in the state-only variant; the run-state table is the one the
  constructor fills.
\<close>

theorem getTreeItem_label_s1:
  fixes p :: provider_ht and q :: provider_so
  assumes "runStateEnum p = runStateEnum_init" and "runStateEnum q = runStateEnum_init"
    and "ServerState.server item = tomcat_s1"
  shows "(Map_get (serverStatus p) ''s1'' = Some st \<and> ServerState.state st = 2 \<longrightarrow>
            map_option label (getTreeItem_ht p (HandleNode tomcat_s1)) = Some ''s1:Tomcat(Started)'') \<and>
         (Map_get (serverStatus p) ''s1'' = None \<longrightarrow>
            map_option label (getTreeItem_ht p (HandleNode tomcat_s1)) = Some ''s1:Tomcat(Unknown)'') \<and>
         (Map_get (serverStatus q) ''s1'' = Some st \<and> ServerState.state st = 2 \<longrightarrow>
            map_option label (getTreeItem_so fmt q (StateNode item)) = Some ''s1:Tomcat(Started)'') \<and>
         (Map_get (serverStatus q) ''s1'' = None \<longrightarrow>
            map_option label (getTreeItem_so fmt q (StateNode item)) = Some ''s1:Tomcat(Unknown)'')"
  using assms by (simp add: Let_def Map_get_runStateEnum_init template_def tomcat_s1_def)

text \<open>
  Witness for C4: the providers after the handle of \<open>s1\<close> was inserted and a Started
  event arrived, and the providers before any state event.
\<close>

theorem getTreeItem_label_s1_witness:
  "map_option label
     (getTreeItem_ht (snd (updateServer_ht (insertServer_ht (constructor_ht []) tomcat_s1) (s1_event 2 [])))
        (HandleNode tomcat_s1)) = Some ''s1:Tomcat(Started)'' \<and>
   map_option label (getTreeItem_ht (insertServer_ht (constructor_ht []) tomcat_s1) (HandleNode tomcat_s1))
     = Some ''s1:Tomcat(Unknown)'' \<and>
   map_option label
     (getTreeItem_so fmt_1e21 (updateServer_so (constructor_so []) (s1_event 2 []))
        (StateNode (s1_event 2 [])))
     = Some ''s1:Tomcat(Started)'' \<and>
   map_option label (getTreeItem_so fmt_1e21 (constructor_so []) (StateNode (s1_event 2 [])))
     = Some ''s1:Tomcat(Unknown)''"
  using
    getTreeItem_label_s1 [where item = "s1_event 2 []" and st = "s1_event 2 []"
      and p = "snd (updateServer_ht (insertServer_ht (constructor_ht []) tomcat_s1) (s1_event 2 []))"
      and q = "updateServer_so (constructor_so []) (s1_event 2 [])" and fmt = fmt_1e21]
    getTreeItem_label_s1 [where item = "s1_event 2 []"
      and p = "insertServer_ht (constructor_ht []) tomcat_s1"
      and q = "constructor_so []" and fmt = fmt_1e21]
  by (simp add: op_defs ex_defs)

text \<open>
  C5, as stated, fails twice. In the state-only variant \<^verbatim>\<open>getChildren\<close> of a
  deployable node returns \<^verbatim>\<open>undefined\<close>, not an empty sequence. In the
  handle-tracking variant \<^verbatim>\<open>getChildren\<close> of the server node \<open>s1\<close>, whose stored
  state holds two deployables, returns \<^verbatim>\<open>undefined\<close>, not the two children.
\<close>

theorem getChildren_undefined_not_sequence:
  "getChildren_so (updateServer_so (constructor_so []) (s1_event 2 [war ''a.war'' 1, war ''b.war'' 1]))
     (Some (DeployableNode (war ''a.war'' 1))) \<noteq> Some [] \<and>
   getChildren_ht
     (snd (updateServer_ht (insertServer_ht (constructor_ht []) tomcat_s1)
            (s1_event 2 [war ''a.war'' 1, war ''b.war'' 1])))
     (Some (HandleNode tomcat_s1))
     \<noteq> Some [DeployableNode_ht (war ''a.war'' 1), DeployableNode_ht (war ''b.war'' 1)]"
  by (simp add: getChildren_so_def getChildren_ht_def)

text \<open>
  C5, amended. In the state-only variant \<^verbatim>\<open>getChildren\<close> of a server-state node
  returns exactly the deployable states of the node, in their order (a sequence of
  length 2 for two children), and \<^verbatim>\<open>getChildren\<close> of a deployable node returns
  \<^verbatim>\<open>undefined\<close>, no sequence at all. In the handle-tracking variant
  \<^verbatim>\<open>getChildren\<close> returns \<^verbatim>\<open>undefined\<close> for every node it is given.
\<close>

theorem getChildren_shape:
  "getChildren_so q (Some (StateNode s)) = Some (map DeployableNode (deployableStates s)) \<and>
   getChildren_so q (Some (DeployableNode d)) = None \<and>
   getChildren_ht p (Some n) = None"
  by (simp add: getChildren_so_def getChildren_ht_def)

text \<open>
  C6, as stated, fails in the handle-tracking variant: the channel of \<open>s1\<close> holds
  \<open>ab\<close>, the handle of \<open>s1\<close> was never inserted, and a Starting event for \<open>s1\<close>
  leaves the content \<open>ab\<close> in the channel.
\<close>

theorem starting_keeps_content_without_handle:
  "Map_get (serverOutputChannels ht_ab_unregistered) ''s1'' = Some 0 \<and>
   map content (channels (snd (updateServer_ht ht_ab_unregistered (s1_event STARTING [])))) =
     [''ab'']"
  by (simp add: ht_ab_unregistered_def op_defs ex_defs)

text \<open>
  C6, amended, for the output channels of either variant.
  Two calls of \<^verbatim>\<open>addServerOutput\<close> for an identifier without a channel create one
  channel, which the table maps the identifier to, and its content is the first text
  followed by the second.
  A state event with run-state Starting for an identifier with a channel empties the
  channel and leaves it in the table, as disposed or not as it was: always in the
  state-only variant, and in the handle-tracking variant when the handle of the
  identifier is in \<^verbatim>\<open>servers\<close>.
  \<^verbatim>\<open>removeServer\<close> followed by \<^verbatim>\<open>addServerOutput\<close> for the same identifier maps
  the identifier to a new channel, not disposed, whose content is the new text only;
  the old channel is empty and disposed.
\<close>

theorem output_channel_lifecycle:
  fixes p :: "('n, 'z) provider_scheme" and q :: provider_so and r :: provider_ht
  shows
   "(Map_get (serverOutputChannels p) i = None \<and>
     id_field (ServerProcessOutput.server o1) = i \<and>
     id_field (ServerProcessOutput.server o2) = i \<longrightarrow>
       Map_get (serverOutputChannels (addServerOutput cfg (addServerOutput cfg p o1) o2)) i
         = Some (length (channels p)) \<and>
       length (channels (addServerOutput cfg (addServerOutput cfg p o1) o2))
         = Suc (length (channels p)) \<and>
       content (channels (addServerOutput cfg (addServerOutput cfg p o1) o2) ! length (channels p))
         = text_field o1 @ text_field o2 \<and>
       \<not> disposed (channels (addServerOutput cfg (addServerOutput cfg p o1) o2) ! length (channels p))) \<and>
    (Map_get (serverOutputChannels q) (id_field h) = Some c \<and> c < length (channels q) \<and>
     id_field (ServerState.server ev) = id_field h \<and> ServerState.state ev = STARTING \<longrightarrow>
       Map_get (serverOutputChannels (updateServer_so q ev)) (id_field h) = Some c \<and>
       length (channels (updateServer_so q ev)) = length (channels q) \<and>
       content (channels (updateServer_so q ev) ! c) = '''' \<and>
       disposed (channels (updateServer_so q ev) ! c) = disposed (channels q ! c)) \<and>
    (Map_get (serverOutputChannels r) (id_field h) = Some d \<and> d < length (channels r) \<and>
     id_field (ServerState.server ev) = id_field h \<and> ServerState.state ev = STARTING \<and>
     Map_get (servers r) (id_field h) = Some h \<longrightarrow>
       Map_get (serverOutputChannels (snd (updateServer_ht r ev))) (id_field h) = Some d \<and>
       length (channels (snd (updateServer_ht r ev))) = length (channels r) \<and>
       content (channels (snd (updateServer_ht r ev)) ! d) = '''' \<and>
       disposed (channels (snd (updateServer_ht r ev)) ! d) = disposed (channels r ! d)) \<and>
    (Map_get (serverOutputChannels q) (id_field h) = Some c \<and> c < length (channels q) \<and>
     id_field (ServerProcessOutput.server o3) = id_field h \<longrightarrow>
       Map_get (serverOutputChannels (addServerOutput cfg (removeServer_so q h) o3)) (id_field h)
         = Some (length (channels q)) \<and>
       content (channels (addServerOutput cfg (removeServer_so q h) o3) ! length (channels q))
         = text_field o3 \<and>
       \<not> disposed (channels (addServerOutput cfg (removeServer_so q h) o3) ! length (channels q)) \<and>
       disposed (channels (addServerOutput cfg (removeServer_so q h) o3) ! c) \<and>
       content (channels (addServerOutput cfg (removeServer_so q h) o3) ! c) = '''') \<and>
    (Map_get (serverOutputChannels r) (id_field h) = Some d \<and> d < length (channels r) \<and>
     id_field (ServerProcessOutput.server o3) = id_field h \<longrightarrow>
       Map_get (serverOutputChannels (addServerOutput cfg (removeServer_ht r h) o3)) (id_field h)
         = Some (length (channels r)) \<and>
       content (channels (addServerOutput cfg (removeServer_ht r h) o3) ! length (channels r))
         = text_field o3 \<and>
       \<not> disposed (channels (addServerOutput cfg (removeServer_ht r h) o3) ! length (channels r)) \<and>
       disposed (channels (addServerOutput cfg (removeServer_ht r h) o3) ! d) \<and>
       content (channels (addServerOutput cfg (removeServer_ht r h) o3) ! d) = '''')"
proof -
  note twice = append_twice [of p i o1 o2 cfg]
  note clear_so = starting_clears_so [of q "id_field h" c ev]
  note clear_ht = starting_clears_ht [of r "id_field h" d ev h]
  note fresh_so = remove_then_append_so [of q h c o3 cfg]
  note fresh_ht = remove_then_append_ht [of r h d o3 cfg]
  show ?thesis
    apply (intro conjI)
    subgoal using twice by blast
    subgoal using clear_so by blast
    subgoal using clear_ht by blast
    subgoal using fresh_so by blast
    subgoal using fresh_ht by blast
    done
qed

text \<open>
  Witness for C6: server \<open>s1\<close>, outputs \<open>a\<close>, \<open>b\<close> and later \<open>c\<close>, in both variants
  (the handle of \<open>s1\<close> inserted in the handle-tracking one).
\<close>

theorem output_channel_lifecycle_witness:
  "map content (channels so_ab) = [''ab''] \<and>
   map content (channels (updateServer_so so_ab (s1_event STARTING []))) = [''''] \<and>
   map disposed (channels (updateServer_so so_ab (s1_event STARTING []))) = [False] \<and>
   map content (channels (snd (updateServer_ht ht_ab (s1_event STARTING [])))) = [''''] \<and>
   map disposed (channels (snd (updateServer_ht ht_ab (s1_event STARTING [])))) = [False] \<and>
   Map_get (serverOutputChannels
      (addServerOutput False (removeServer_so so_ab tomcat_s1) (s1_output ''c''))) ''s1'' = Some 1 \<and>
   map content (channels (addServerOutput False (removeServer_so so_ab tomcat_s1) (s1_output ''c'')))
     = ['''', ''c''] \<and>
   map disposed (channels (addServerOutput False (removeServer_so so_ab tomcat_s1) (s1_output ''c'')))
     = [True, False] \<and>
   map content (channels (addServerOutput False (removeServer_ht ht_ab tomcat_s1) (s1_output ''c'')))
     = ['''', ''c''] \<and>
   map disposed (channels (addServerOutput False (removeServer_ht ht_ab tomcat_s1) (s1_output ''c'')))
     = [True, False]"
  using output_channel_lifecycle [where p = "constructor_so []" and i = "''s1''"
      and ?o1.0 = "s1_output ''a''" and ?o2.0 = "s1_output ''b''" and cfg = False
      and q = so_ab and h = tomcat_s1 and c = 0 and ev = "s1_event STARTING []"
      and r = ht_ab and d = 0 and ?o3.0 = "s1_output ''c''"]
  unfolding so_ab_eval ht_ab_eval
  by (simp add: op_defs ex_defs)

text \<open>
  C7, as stated, fails in the handle-tracking variant: \<^verbatim>\<open>updateServer\<close> with an event
  for \<open>s1\<close>, whose handle was never inserted, fires no change notification.
\<close>

theorem updateServer_ht_unknown_fires_nothing:
  "fired (snd (updateServer_ht (constructor_ht []) (s1_event 2 []))) = fired (constructor_ht [])"
  by (simp add: op_defs ex_defs)

text \<open>
  C7, amended. \<^verbatim>\<open>insertServer\<close> and \<^verbatim>\<open>removeServer\<close> of both variants fire exactly
  one change notification per call, without argument (the whole tree). \<^verbatim>\<open>updateServer\<close>
  of the state-only variant fires exactly one, with the event as its argument.
  \<^verbatim>\<open>updateServer\<close> of the handle-tracking variant, when the handle of the event's
  identifier is in \<^verbatim>\<open>servers\<close>, throws nothing and fires exactly one, with that
  handle as its argument.
\<close>

theorem one_change_notification:
  fixes p :: provider_ht and q :: provider_so
  shows "fired (insertServer_ht p h) = fired p @ [None] \<and>
         fired (removeServer_ht p h) = fired p @ [None] \<and>
         fired (insertServer_so q h) = fired q @ [None] \<and>
         fired (removeServer_so q h) = fired q @ [None] \<and>
         fired (updateServer_so q ev) = fired q @ [Some ev] \<and>
         (Map_get (servers p) (id_field (ServerState.server ev)) = Some val \<longrightarrow>
            fst (updateServer_ht p ev) = None \<and>
            fired (snd (updateServer_ht p ev)) = fired p @ [Some val])"
  by (simp add: insertServer_ht_def removeServer_ht_def insertServer_so_def removeServer_so_def
      updateServer_so_def updateServer_ht_def Let_def)

text \<open>
  Witness for C7: the handle of \<open>s1\<close> is inserted (first notification, no argument),
  then a state event for \<open>s1\<close> arrives (second notification, the handle).
\<close>

theorem one_change_notification_witness:
  "Map_get (servers (insertServer_ht (constructor_ht []) tomcat_s1)) ''s1'' = Some tomcat_s1 \<and>
   fired (snd (updateServer_ht (insertServer_ht (constructor_ht []) tomcat_s1) (s1_event 2 [])))
     = [None, Some tomcat_s1]"
  using one_change_notification [where p = "insertServer_ht (constructor_ht []) tomcat_s1"
      and ev = "s1_event 2 []" and val = tomcat_s1 and h = tomcat_s1 and q = "constructor_so []"]
  by (simp add: op_defs ex_defs)

text \<open>
  C8, as stated, fails: the label of a deployable node does not carry the reference.
  For the deployable \<open>app.war\<close> with state code 2 the label is \<open>I am a deployment: 2\<close>,
  in which the name does not occur.
\<close>

theorem deployable_label_without_reference:
  "map_option label
     (getTreeItem_so fmt_1e21 (constructor_so []) (DeployableNode (war ''app.war'' 2)))
     = Some ''I am a deployment: 2'' \<and>
   \<not> (\<exists>pre post. ''I am a deployment: 2'' = pre @ ref_name (reference (war ''app.war'' 2)) @ post)"
proof -
  have "\<not> (\<exists>pre post. ''I am a deployment: 2'' = pre @ ''app.war'' @ post)"
  proof
    assume "\<exists>pre post. ''I am a deployment: 2'' = pre @ ''app.war'' @ post"
    then obtain pre post where e: "''I am a deployment: 2'' = pre @ ''app.war'' @ post"
      by blast
    have "CHR ''w'' \<in> set (pre @ ''app.war'' @ post)" by simp
    with e have "CHR ''w'' \<in> set ''I am a deployment: 2''" by simp
    then show False by simp
  qed
  then show ?thesis
    by (simp add: war_def number_toString_def MAX_SAFE_INTEGER_def decimal_def
        nat_toString.simps digit_def)
qed

text \<open>
  C8, amended. For every deployable node whose state code is a safe integer (of
  magnitude at most \<open>2^53 - 1\<close>), the tree item of the state-only variant has the label
  \<open>I am a deployment: \<close> followed by the deployable's own state code in decimal; the
  reference is not part of the label. For every deployable node, the context value of
  the item is the entry of the run-state table at the deployable's own state code,
  \<^verbatim>\<open>undefined\<close> when the table has none.
\<close>

theorem getTreeItem_so_deployable:
  "(\<bar>DeployableState.state d\<bar> \<le> MAX_SAFE_INTEGER \<longrightarrow>
      map_option label (getTreeItem_so fmt q (DeployableNode d)) =
        Some (''I am a deployment: '' @ decimal (DeployableState.state d))) \<and>
   map_option contextValue (getTreeItem_so fmt q (DeployableNode d)) =
     Some (Map_get (runStateEnum q) (DeployableState.state d))"
  by (simp add: number_toString_def)

text \<open>
  Witness for C8: the deployable \<open>app.war\<close> with the state code 2, which the run-state
  table names \<open>Started\<close>, and the deployable \<open>b.war\<close> with the state code 1234, for
  which the table has no entry.
\<close>

theorem getTreeItem_so_deployable_witness:
  "\<bar>DeployableState.state (war ''app.war'' 2)\<bar> \<le> MAX_SAFE_INTEGER \<and>
   \<bar>DeployableState.state (war ''b.war'' 1234)\<bar> \<le> MAX_SAFE_INTEGER \<and>
   getTreeItem_so fmt_1e21 (constructor_so []) (DeployableNode (war ''app.war'' 2)) =
     Some \<lparr>label = ''I am a deployment: 2'', iconPath = ''../../images/server-light.png'',
           contextValue = Some ''Started''\<rparr> \<and>
   getTreeItem_so fmt_1e21 (constructor_so []) (DeployableNode (war ''b.war'' 1234)) =
     Some \<lparr>label = ''I am a deployment: 1234'', iconPath = ''../../images/server-light.png'',
           contextValue = None\<rparr>"
  using
    getTreeItem_so_deployable [where d = "war ''app.war'' 2" and fmt = fmt_1e21
      and q = "constructor_so []"]
    getTreeItem_so_deployable [where d = "war ''b.war'' 1234" and fmt = fmt_1e21
      and q = "constructor_so []"]
  by (simp add: war_def constructor_so_def Map_get_runStateEnum_init number_toString_def
      MAX_SAFE_INTEGER_def decimal_def nat_toString.simps digit_def)

text \<open>
  C9: in the state-only variant \<^verbatim>\<open>insertServer\<close> changes no field but the list of
  fired notifications, to which it adds one without argument: the state map, the
  channel table, the channels and both enum tables stay as they are, so the roots that
  \<^verbatim>\<open>getChildren(undefined)\<close> lists are the same as before. The server appears among
  the roots with its first state event.
\<close>

theorem insertServer_so_frame:
  "serverStatus (insertServer_so p h) = serverStatus p \<and>
   serverOutputChannels (insertServer_so p h) = serverOutputChannels p \<and>
   runStateEnum (insertServer_so p h) = runStateEnum p \<and>
   publishStateEnum (insertServer_so p h) = publishStateEnum p \<and>
   channels (insertServer_so p h) = channels p \<and>
   fired (insertServer_so p h) = fired p @ [None] \<and>
   getChildren_so (insertServer_so p h) None = getChildren_so p None \<and>
   (\<exists>roots. getChildren_so (updateServer_so (insertServer_so p h) ev) None = Some roots \<and>
      StateNode ev \<in> set roots)"
  by (simp add: insertServer_so_def getChildren_so_def values_Map_set)

text \<open>
  C10: in the handle-tracking variant \<^verbatim>\<open>getTreeItem\<close> returns \<^verbatim>\<open>undefined\<close> for
  every server-state node (the node with \<^verbatim>\<open>deployableStates\<close>); the nodes for which it
  returns an item are exactly the handles with a non-empty \<^verbatim>\<open>id\<close>.
\<close>

theorem getTreeItem_ht_ServerState_undefined:
  "getTreeItem_ht p (StateNode_ht s) = None \<and>
   (getTreeItem_ht p n \<noteq> None) = (\<exists>h. n = HandleNode h \<and> id_field h \<noteq> '''')"
  by (cases n) (simp_all add: Let_def)

end
